theory Spec2Isabelle
  imports Complex_Main "HOL-Library.Log_Nat"
begin

section \<open>Values of the Realtime Database as the user panel reads them\<close>

text \<open>
  The user panel (\<^verbatim>\<open>joinTournament\<close>, \<^verbatim>\<open>requestWithdrawal\<close>) works on
  JSON documents of the Firebase Realtime Database. A stored number is a finite JavaScript
  number (binary64), modelled by the rational it denotes. A field that may be missing is
  an \<open>option\<close>: \<open>None\<close> is what JavaScript reads as \<^verbatim>\<open>undefined\<close> (a missing
  field) or \<^verbatim>\<open>null\<close> (a missing location).

  The slot counters and the entry fee are integers in the data model. The join path only
  adds 1, subtracts 1 and subtracts the entry fee, which binary64 does without rounding
  on integers below \<open>2^53\<close>, and its arithmetic is modelled as exact. The amount of a
  withdrawal is whatever \<^verbatim>\<open>parseFloat\<close> returns, so the withdrawal path rounds
  every result as binary64 does.
\<close>

text \<open>\<^verbatim>\<open>x || d\<close> on a number that may be missing: missing and \<open>0\<close> are falsy.\<close>

definition orDefault :: "rat option \<Rightarrow> rat \<Rightarrow> rat" where
  "orDefault x d = (case x of None \<Rightarrow> d | Some v \<Rightarrow> if v = 0 then d else v)"

text \<open>\<^verbatim>\<open>a >= b\<close> and \<^verbatim>\<open>a < b\<close>: a comparison with \<^verbatim>\<open>undefined\<close> is false.\<close>

definition jsGe :: "rat option \<Rightarrow> rat option \<Rightarrow> bool" where
  "jsGe a b = (case a of None \<Rightarrow> False
               | Some x \<Rightarrow> (case b of None \<Rightarrow> False | Some y \<Rightarrow> y \<le> x))"

definition jsLt :: "rat option \<Rightarrow> rat option \<Rightarrow> bool" where
  "jsLt a b = (case a of None \<Rightarrow> False
               | Some x \<Rightarrow> (case b of None \<Rightarrow> False | Some y \<Rightarrow> x < y))"

text \<open>\<^verbatim>\<open>/users/{uid}\<close>; \<open>ign\<close> is \<^verbatim>\<open>gameProfiles.ign\<close>, \<open>balance\<close> is
  \<^verbatim>\<open>wallet.balance\<close>.\<close>

record user =
  name :: "string option"
  phone :: "string option"
  isBlocked :: bool
  ign :: "string option"
  balance :: "rat option"

text \<open>\<^verbatim>\<open>/tournaments/{tId}\<close>.\<close>

record tournament =
  title :: "string option"
  entryFee :: "rat option"
  maxSlots :: "rat option"
  joinedCount :: "rat option"

text \<open>\<^verbatim>\<open>/tournamentJoins/{tId}/{uid}\<close>, as \<^verbatim>\<open>joinPath.set\<close> writes it.\<close>

record joinEntry =
  joinUid :: string
  userName :: "string option"
  gameUidOrIgn :: string
  joinPhone :: "string option"
  joinedAt :: nat
  joinStatus :: string

text \<open>\<^verbatim>\<open>/walletHistory/{uid}/{autoId}\<close>, as \<^verbatim>\<open>loadWalletHistory\<close> reads it.\<close>

record walletTx =
  txType :: string
  txAmount :: rat
  txCreatedAt :: nat
  txNote :: "string option"

text \<open>\<^verbatim>\<open>/withdrawals/{autoId}\<close>, as \<^verbatim>\<open>requestWithdrawal\<close> writes it.\<close>

record withdrawal =
  wUid :: string
  wName :: string
  wMethod :: string
  accountInfo :: string
  amount :: rat
  fee :: rat
  wStatus :: string
  adminNote :: string
  transactionId :: string
  createdAt :: nat
  updatedAt :: nat

text \<open>\<^verbatim>\<open>/appSettings\<close>.\<close>

record settings =
  minWithdraw :: "rat option"
  withdrawFeePercent :: "rat option"

text \<open>
  The database. \<^verbatim>\<open>push()\<close> makes keys that sort by creation, so the withdrawals and each
  user's wallet history are lists in creation order.
\<close>

record db =
  users :: "string \<rightharpoonup> user"
  tournaments :: "string \<rightharpoonup> tournament"
  tournamentJoins :: "string \<times> string \<rightharpoonup> joinEntry"
  walletHistory :: "string \<Rightarrow> walletTx list"
  withdrawals :: "withdrawal list"
  appSettings :: "settings option"

section \<open>Binary64 arithmetic\<close>

text \<open>A JavaScript number as an operation or \<^verbatim>\<open>parseFloat\<close> yields it: not a
  number, an infinity, or a finite value.\<close>

datatype parsed = NaN | NegInfinity | PosInfinity | Finite rat

text \<open>The binary exponent of \<open>x \<noteq> 0\<close>: the \<open>e\<close> with \<open>2^e \<le> |x| < 2^(e+1)\<close>, from the
  bit lengths of the numerator and the denominator.\<close>

definition exponent :: "rat \<Rightarrow> int" where
  "exponent x =
     (case quotient_of \<bar>x\<bar> of
        (p, q) \<Rightarrow>
          (let k = bitlen p - bitlen q
           in if 2 powi k \<le> \<bar>x\<bar> then k else k - 1))"

text \<open>Rounding to the nearest integer, a tie going to the even one.\<close>

definition roundHalfEven :: "rat \<Rightarrow> int" where
  "roundHalfEven z =
     (let f = \<lfloor>z\<rfloor>; r = z - of_int f
      in if r < 1 / 2 then f
         else if 1 / 2 < r then f + 1
         else if even f then f else f + 1)"

text \<open>The distance between neighbouring binary64 values around \<open>x\<close>: 53 significant
  bits, and the fixed spacing \<open>2^-1074\<close> of the subnormal range below \<open>2^-1022\<close>.\<close>

definition quantum :: "rat \<Rightarrow> rat" where
  "quantum x = 2 powi (max (exponent x) (- 1022) - 52)"

text \<open>The nearest value on the binary64 grid, ties to even.\<close>

definition round64 :: "rat \<Rightarrow> rat" where
  "round64 x = (if x = 0 then 0 else of_int (roundHalfEven (x / quantum x)) * quantum x)"

text \<open>The binary64 result of an operation whose exact result is \<open>x\<close>: a rounded value of
  magnitude \<open>2^1024\<close> or more is an infinity.\<close>

definition toDouble :: "rat \<Rightarrow> parsed" where
  "toDouble x =
     (let y = round64 x
      in if 2 ^ 1024 \<le> y then PosInfinity
         else if y \<le> - (2 ^ 1024) then NegInfinity
         else Finite y)"

section \<open>Transactions\<close>

text \<open>
  \<^verbatim>\<open>ref.transaction(update, onComplete)\<close> on the current value of a location. The update
  function returns \<^verbatim>\<open>undefined\<close> to abort (\<open>None\<close>), or the value to write
  (\<open>Some v\<close>, where \<open>v = None\<close> is \<^verbatim>\<open>null\<close>). The completion callback receives
  \<open>(error, committed)\<close>; the third component is the value of the location afterwards.
  A failure of the store is an input of the model where the source's callback looks at it.
  The store reruns the update function when another client wrote in between; \<open>cur\<close> is
  the value of the run that commits or aborts, and each operation is followed from start
  to end with no other client writing meanwhile.
\<close>

definition transaction ::
  "bool \<Rightarrow> ('a option \<Rightarrow> 'a option option) \<Rightarrow> 'a option \<Rightarrow> bool \<times> bool \<times> 'a option" where
  "transaction storeError update cur =
     (if storeError then (True, False, cur)
      else (case update cur of
              None \<Rightarrow> (False, False, cur)
            | Some new \<Rightarrow> (False, True, new)))"

text \<open>The location \<^verbatim>\<open>users/{uid}/wallet/balance\<close>.\<close>

definition walletBalance :: "db \<Rightarrow> string \<Rightarrow> rat option" where
  "walletBalance d u = (case users d u of None \<Rightarrow> None | Some usr \<Rightarrow> balance usr)"

definition setWalletBalance :: "db \<Rightarrow> string \<Rightarrow> rat option \<Rightarrow> db" where
  "setWalletBalance d u v =
     (case users d u of
        None \<Rightarrow>
          (case v of
             None \<Rightarrow> d
           | Some b \<Rightarrow> d\<lparr>users := (users d)(u \<mapsto>
               \<lparr>name = None, phone = None, isBlocked = False, ign = None, balance = Some b\<rparr>)\<rparr>)
      | Some usr \<Rightarrow> d\<lparr>users := (users d)(u \<mapsto> usr\<lparr>balance := v\<rparr>)\<rparr>)"

text \<open>The location \<^verbatim>\<open>tournaments/{tId}/joinedCount\<close>.\<close>

definition joinedCountAt :: "db \<Rightarrow> string \<Rightarrow> rat option" where
  "joinedCountAt d tId = (case tournaments d tId of None \<Rightarrow> None | Some tr \<Rightarrow> joinedCount tr)"

definition setJoinedCount :: "db \<Rightarrow> string \<Rightarrow> rat option \<Rightarrow> db" where
  "setJoinedCount d tId v =
     (case tournaments d tId of
        None \<Rightarrow>
          (case v of
             None \<Rightarrow> d
           | Some c \<Rightarrow> d\<lparr>tournaments := (tournaments d)(tId \<mapsto>
               \<lparr>title = None, entryFee = None, maxSlots = None, joinedCount = Some c\<rparr>)\<rparr>)
      | Some tr \<Rightarrow> d\<lparr>tournaments := (tournaments d)(tId \<mapsto> tr\<lparr>joinedCount := v\<rparr>)\<rparr>)"

section \<open>joinTournament\<close>

text \<open>First transaction, on \<^verbatim>\<open>tournaments/{tId}\<close>: abort when the slots are full,
  else count one more join; a missing record (\<^verbatim>\<open>curr\<close> is \<^verbatim>\<open>null\<close>) is returned
  as it is.\<close>

definition reserveSlot :: "tournament option \<Rightarrow> tournament option option" where
  "reserveSlot cur =
     (case cur of
        None \<Rightarrow> Some None
      | Some c \<Rightarrow>
          if jsGe (joinedCount c) (maxSlots c) then None
          else Some (Some (c\<lparr>joinedCount := Some (orDefault (joinedCount c) 0 + 1)\<rparr>)))"

text \<open>Second transaction, on the wallet balance, with the entry fee of the tournament
  card \<open>t\<close> that was clicked.\<close>

definition deductFee :: "tournament \<Rightarrow> rat option \<Rightarrow> rat option option" where
  "deductFee t bal =
     (if jsGe (Some (orDefault bal 0)) (entryFee t)
      then (case entryFee t of None \<Rightarrow> None | Some f \<Rightarrow> Some (Some (orDefault bal 0 - f)))
      else None)"

text \<open>The compensating transaction on \<^verbatim>\<open>joinedCount\<close>: \<^verbatim>\<open>(c || 1) - 1\<close>.\<close>

definition releaseSlot :: "rat option \<Rightarrow> rat option option" where
  "releaseSlot c = Some (Some (orDefault c 1 - 1))"

text \<open>How a run ends: with one of the toasts of the source or, last, with no toast
  because the write of the record threw (the store's \<^verbatim>\<open>set\<close> refuses a value that
  holds \<^verbatim>\<open>undefined\<close> or a number that is not finite).\<close>

datatype outcome =
    ProfileNotSetUp
  | YouAreBlocked
  | InsufficientWalletBalance
  | ErrorJoiningTournament
  | SlotsAreFull
  | UnableToDeductFee
  | JoinedSuccessfully
  | EnterValidAmount
  | MinimumWithdrawIs rat
  | InsufficientBalance
  | WithdrawRequested
  | WriteThrew

text \<open>The store failures that the two completion callbacks of \<^verbatim>\<open>joinTournament\<close>
  look at.\<close>

record faults =
  reserveError :: bool
  debitError :: bool

text \<open>
  \<^verbatim>\<open>joinTournament(tId, t)\<close> for the signed-in user \<open>uid\<close> at time \<open>now\<close>, one
  attempt run from start to end on the database. The result is how the run ends and the
  database afterwards. The source nests two completion callbacks; each is a function here,
  applied to what its transaction reports. The compensating transaction and the join
  record are written without a callback and take effect.
\<close>

text \<open>The object that \<^verbatim>\<open>joinPath.set\<close> is given; \<^verbatim>\<open>gameProfiles?.ign || ''\<close>
  is the empty string when the handle is missing. \<^verbatim>\<open>userName\<close> and \<^verbatim>\<open>phone\<close>
  are copied from the profile, and \<^verbatim>\<open>set\<close> throws when one of them is
  \<^verbatim>\<open>undefined\<close>.\<close>

definition joinRecord :: "nat \<Rightarrow> string \<Rightarrow> user \<Rightarrow> joinEntry" where
  "joinRecord now uid userData =
     \<lparr>joinUid = uid,
      userName = name userData,
      gameUidOrIgn = (case ign userData of None \<Rightarrow> [] | Some g \<Rightarrow> g),
      joinPhone = phone userData,
      joinedAt = now,
      joinStatus = ''joined''\<rparr>"

text \<open>Completion callback of the wallet transaction; \<open>d1\<close> is the database after the
  slot was counted, \<open>userData\<close> the snapshot read at the start. When the profile has no
  name or no phone, \<^verbatim>\<open>joinPath.set\<close> throws after the debit was committed: no
  record is written and no toast is shown.\<close>

definition onFeeDeducted ::
  "nat \<Rightarrow> string \<Rightarrow> string \<Rightarrow> user \<Rightarrow> db \<Rightarrow> bool \<times> bool \<times> rat option \<Rightarrow> outcome \<times> db" where
  "onFeeDeducted now uid tId userData d1 res =
     (case res of
        (err, committed2, bal') \<Rightarrow>
          if err \<or> \<not> committed2
          then
            (case transaction False releaseSlot (joinedCountAt d1 tId) of
               (_, _, c') \<Rightarrow> (UnableToDeductFee, setJoinedCount d1 tId c'))
          else if name userData = None \<or> phone userData = None
          then (WriteThrew, setWalletBalance d1 uid bal')
          else
            (JoinedSuccessfully,
             (setWalletBalance d1 uid bal')
               \<lparr>tournamentJoins :=
                  (tournamentJoins d1)((tId, uid) \<mapsto> joinRecord now uid userData)\<rparr>))"

text \<open>Completion callback of the tournament transaction.\<close>

definition onSlotReserved ::
  "faults \<Rightarrow> nat \<Rightarrow> string \<Rightarrow> string \<Rightarrow> tournament \<Rightarrow> user \<Rightarrow> db
     \<Rightarrow> bool \<times> bool \<times> tournament option \<Rightarrow> outcome \<times> db" where
  "onSlotReserved flt now uid tId t userData d res =
     (case res of
        (error, committed, cur') \<Rightarrow>
          if error then (ErrorJoiningTournament, d)
          else if \<not> committed then (SlotsAreFull, d)
          else
            (let d1 = d\<lparr>tournaments := (tournaments d)(tId := cur')\<rparr>
             in onFeeDeducted now uid tId userData d1
                  (transaction (debitError flt) (deductFee t) (walletBalance d1 uid))))"

definition joinTournament ::
  "faults \<Rightarrow> nat \<Rightarrow> string \<Rightarrow> string \<Rightarrow> tournament \<Rightarrow> db \<Rightarrow> outcome \<times> db" where
  "joinTournament flt now uid tId t d =
     (case users d uid of
        None \<Rightarrow> (ProfileNotSetUp, d)
      | Some userData \<Rightarrow>
          if isBlocked userData then (YouAreBlocked, d)
          else if jsLt (Some (orDefault (balance userData) 0)) (entryFee t)
          then (InsufficientWalletBalance, d)
          else onSlotReserved flt now uid tId t userData d
                 (transaction (reserveError flt) reserveSlot (tournaments d tId)))"

section \<open>requestWithdrawal\<close>

text \<open>\<^verbatim>\<open>Math.ceil(amount * feePercent / 100)\<close>: the product is rounded to binary64,
  then the quotient, and \<^verbatim>\<open>Math.ceil\<close> of a finite value is exact. A product that
  overflows stays infinite.\<close>

definition withdrawFee :: "rat \<Rightarrow> rat \<Rightarrow> parsed" where
  "withdrawFee a feePercent =
     (case toDouble (a * feePercent) of
        Finite v \<Rightarrow>
          (case toDouble (v / 100) of
             Finite w \<Rightarrow> Finite (of_int \<lceil>w\<rceil>)
           | NaN \<Rightarrow> NaN
           | NegInfinity \<Rightarrow> NegInfinity
           | PosInfinity \<Rightarrow> PosInfinity)
      | NaN \<Rightarrow> NaN
      | NegInfinity \<Rightarrow> NegInfinity
      | PosInfinity \<Rightarrow> PosInfinity)"

text \<open>\<^verbatim>\<open>settings.minWithdraw || 0\<close> and \<^verbatim>\<open>settings.withdrawFeePercent || 0\<close>,
  where \<^verbatim>\<open>settings\<close> is \<^verbatim>\<open>snap.val() || {}\<close>.\<close>

definition minWithdrawSetting :: "db \<Rightarrow> rat" where
  "minWithdrawSetting d =
     orDefault (case appSettings d of None \<Rightarrow> None | Some s \<Rightarrow> minWithdraw s) 0"

definition feePercentSetting :: "db \<Rightarrow> rat" where
  "feePercentSetting d =
     orDefault (case appSettings d of None \<Rightarrow> None | Some s \<Rightarrow> withdrawFeePercent s) 0"

text \<open>The transaction on the wallet balance: \<^verbatim>\<open>(bal || 0) - amount\<close> is the
  rounded difference (it lies between 0 and the balance, so it is finite).\<close>

definition deductAmount :: "rat \<Rightarrow> rat option \<Rightarrow> rat option option" where
  "deductAmount a bal =
     (if a \<le> orDefault bal 0 then Some (Some (round64 (orDefault bal 0 - a))) else None)"

text \<open>The object that \<^verbatim>\<open>ref.set\<close> writes under \<^verbatim>\<open>withdrawals\<close>; \<open>now\<close> and
  \<open>now'\<close> are the two readings of the clock.\<close>

definition withdrawalRecord ::
  "nat \<Rightarrow> nat \<Rightarrow> string \<Rightarrow> string \<Rightarrow> string \<Rightarrow> rat \<Rightarrow> rat \<Rightarrow> withdrawal" where
  "withdrawalRecord now now' uid methodValue account a feeValue =
     \<lparr>wUid = uid,
      wName = [],
      wMethod = methodValue,
      accountInfo = account,
      amount = a,
      fee = feeValue,
      wStatus = ''pending'',
      adminNote = [],
      transactionId = [],
      createdAt = now,
      updatedAt = now'\<rparr>"

text \<open>Completion callback of the wallet transaction. The record is given the fee as it
  was computed; when that is not finite, \<^verbatim>\<open>ref.set\<close> throws after the debit was
  committed: no record is written and no toast is shown.\<close>

definition onAmountDeducted ::
  "nat \<Rightarrow> nat \<Rightarrow> string \<Rightarrow> string \<Rightarrow> string \<Rightarrow> rat \<Rightarrow> parsed \<Rightarrow> db
     \<Rightarrow> bool \<times> bool \<times> rat option \<Rightarrow> outcome \<times> db" where
  "onAmountDeducted now now' uid methodValue account a feeValue d res =
     (case res of
        (err, committed, bal') \<Rightarrow>
          if err \<or> \<not> committed then (InsufficientBalance, d)
          else
            (case feeValue of
               Finite f \<Rightarrow>
                 (WithdrawRequested,
                  (setWalletBalance d uid bal')
                    \<lparr>withdrawals := withdrawals d @
                       [withdrawalRecord now now' uid methodValue account a f]\<rparr>)
             | NaN \<Rightarrow> (WriteThrew, setWalletBalance d uid bal')
             | NegInfinity \<Rightarrow> (WriteThrew, setWalletBalance d uid bal')
             | PosInfinity \<Rightarrow> (WriteThrew, setWalletBalance d uid bal')))"

text \<open>
  \<^verbatim>\<open>requestWithdrawal()\<close> for the signed-in user \<open>uid\<close>, with the form fields as inputs:
  the parsed amount, the method and the account. The first guard is
  \<^verbatim>\<open>!amount || amount <= 0\<close>. An infinite amount passes it and the minimum (both
  comparisons are false), and no balance is at least as large, so its transaction aborts.
\<close>

definition requestWithdrawal ::
  "bool \<Rightarrow> nat \<Rightarrow> nat \<Rightarrow> string \<Rightarrow> parsed \<Rightarrow> string \<Rightarrow> string \<Rightarrow> db \<Rightarrow> outcome \<times> db" where
  "requestWithdrawal storeError now now' uid amt methodField accountField d =
     (case amt of
        NaN \<Rightarrow> (EnterValidAmount, d)
      | NegInfinity \<Rightarrow> (EnterValidAmount, d)
      | PosInfinity \<Rightarrow> (InsufficientBalance, d)
      | Finite a \<Rightarrow>
          if a = 0 \<or> a \<le> 0 then (EnterValidAmount, d)
          else
            (let min = minWithdrawSetting d;
                 feePercent = feePercentSetting d
             in
               if a < min then (MinimumWithdrawIs min, d)
               else
                 onAmountDeducted now now' uid
                   (if methodField = [] then ''upi'' else methodField) accountField
                   a (withdrawFee a feePercent) d
                   (transaction storeError (deductAmount a) (walletBalance d uid))))"

section \<open>Example data\<close>

text \<open>A user with 1500 in the wallet, a tournament with fee 100 and one of two slots
  taken, and the settings of the withdrawal scenario (minimum 500, fee 2 percent).
  In \<open>memberDb\<close> the user already holds the membership record of the tournament. In
  \<open>namelessDb\<close> the only profile has no name. In \<open>richDb\<close> the fee is 3 percent and
  the balance is 8000000000000000.\<close>

definition alice :: user where
  "alice = \<lparr>name = Some ''Alice'', phone = Some ''5550100'', isBlocked = False,
            ign = Some ''alice01'', balance = Some 1500\<rparr>"

definition cup :: tournament where
  "cup = \<lparr>title = Some ''Cup'', entryFee = Some 100, maxSlots = Some 2, joinedCount = Some 1\<rparr>"

definition exampleDb :: db where
  "exampleDb =
     \<lparr>users = [''A'' \<mapsto> alice],
      tournaments = [''T'' \<mapsto> cup],
      tournamentJoins = Map.empty,
      walletHistory = (\<lambda>_. []),
      withdrawals = [],
      appSettings = Some \<lparr>minWithdraw = Some 500, withdrawFeePercent = Some 2\<rparr>\<rparr>"

definition memberDb :: db where
  "memberDb = exampleDb\<lparr>tournamentJoins := [(''T'', ''A'') \<mapsto> joinRecord 1 ''A'' alice]\<rparr>"

definition nobody :: user where
  "nobody = \<lparr>name = None, phone = Some ''5550101'', isBlocked = False,
             ign = None, balance = Some 1500\<rparr>"

definition namelessDb :: db where
  "namelessDb = exampleDb\<lparr>users := [''N'' \<mapsto> nobody]\<rparr>"

definition richDb :: db where
  "richDb =
     \<lparr>users = [''R'' \<mapsto> alice\<lparr>balance := Some 8000000000000000\<rparr>],
      tournaments = Map.empty,
      tournamentJoins = Map.empty,
      walletHistory = (\<lambda>_. []),
      withdrawals = [],
      appSettings = Some \<lparr>minWithdraw = Some 500, withdrawFeePercent = Some 3\<rparr>\<rparr>"

definition noFaults :: faults where
  "noFaults = \<lparr>reserveError = False, debitError = False\<rparr>"

definition debitFails :: faults where
  "debitFails = \<lparr>reserveError = False, debitError = True\<rparr>"

section \<open>Basic facts\<close>

lemmas eval_defs =
  joinTournament_def onSlotReserved_def onFeeDeducted_def transaction_def reserveSlot_def
  deductFee_def releaseSlot_def joinRecord_def jsGe_def jsLt_def orDefault_def
  walletBalance_def setWalletBalance_def joinedCountAt_def setJoinedCount_def
  requestWithdrawal_def onAmountDeducted_def withdrawalRecord_def
  deductAmount_def minWithdrawSetting_def feePercentSetting_def
  exampleDb_def memberDb_def namelessDb_def richDb_def alice_def nobody_def cup_def
  noFaults_def debitFails_def

subsection \<open>Rounding\<close>

lemma exponent_le:
  assumes "x \<noteq> 0"
  shows "2 powi exponent x \<le> \<bar>x\<bar>"
proof -
  obtain p q where pq: "quotient_of \<bar>x\<bar> = (p, q)"
    by (cases "quotient_of \<bar>x\<bar>")
  then have q: "0 < q" by (rule quotient_of_denom_pos)
  from pq have x: "\<bar>x\<bar> = of_int p / of_int q" by (rule quotient_of_div)
  have "0 < \<bar>x\<bar>" using assms by simp
  with x have "0 < of_int p / (of_int q :: rat)" by simp
  with q have "0 < (of_int p :: rat)" by (simp add: zero_less_divide_iff)
  then have p: "0 < p" by simp
  let ?k = "bitlen p - bitlen q"
  show ?thesis
  proof (cases "2 powi ?k \<le> \<bar>x\<bar>")
    case True
    with pq show ?thesis by (simp add: exponent_def)
  next
    case False
    have lo: "(2::rat) ^ nat (bitlen p - 1) \<le> of_int p"
      using bitlen_bounds [OF p] by (metis of_int_le_iff of_int_numeral of_int_power)
    have hi: "of_int q < (2::rat) ^ nat (bitlen q)"
      using bitlen_bounds [OF q] by (metis of_int_less_iff of_int_numeral of_int_power)
    have bp: "1 \<le> bitlen p" and bq: "1 \<le> bitlen q"
      using p q by (auto simp: bitlen_alt_def)
    have "(2::rat) powi (?k - 1) = 2 powi (bitlen p - 1) / 2 powi (bitlen q)"
      by (simp add: power_int_diff)
    also have "\<dots> = 2 ^ nat (bitlen p - 1) / 2 ^ nat (bitlen q)"
      using bp bq by (simp add: power_int_def)
    also have "\<dots> \<le> of_int p / of_int q"
      using lo hi q p by (intro frac_le) auto
    finally have "2 powi (?k - 1) \<le> \<bar>x\<bar>" using x by simp
    with False pq show ?thesis by (simp add: exponent_def)
  qed
qed

lemma roundHalfEven_of_int: "roundHalfEven (of_int n) = n"
  by (simp add: roundHalfEven_def)

lemma roundHalfEven_error: "\<bar>of_int (roundHalfEven z) - z\<bar> \<le> 1 / 2"
proof -
  define r where "r = z - of_int \<lfloor>z\<rfloor>"
  have r: "0 \<le> r" "r < 1" unfolding r_def by linarith+
  have "roundHalfEven z = \<lfloor>z\<rfloor> \<and> r \<le> 1 / 2 \<or> roundHalfEven z = \<lfloor>z\<rfloor> + 1 \<and> 1 / 2 \<le> r"
    unfolding roundHalfEven_def Let_def r_def [symmetric] by auto
  then show ?thesis
  proof
    assume a: "roundHalfEven z = \<lfloor>z\<rfloor> \<and> r \<le> 1 / 2"
    then have "of_int (roundHalfEven z) - z = - r" by (simp add: r_def)
    with a r show ?thesis by simp
  next
    assume a: "roundHalfEven z = \<lfloor>z\<rfloor> + 1 \<and> 1 / 2 \<le> r"
    then have "of_int (roundHalfEven z) - z = 1 - r" by (simp add: r_def)
    with a r show ?thesis by simp
  qed
qed

lemma roundHalfEven_nonneg: "0 \<le> z \<Longrightarrow> 0 \<le> roundHalfEven z"
  by (auto simp: roundHalfEven_def Let_def)

lemma quantum_pos: "0 < quantum x"
  by (simp add: quantum_def)

lemma round64_nonneg: "0 \<le> x \<Longrightarrow> 0 \<le> round64 x"
  using quantum_pos [of x]
  by (auto simp: round64_def intro!: mult_nonneg_nonneg roundHalfEven_nonneg)

lemma round64_error: "\<bar>round64 x - x\<bar> \<le> quantum x / 2"
proof (cases "x = 0")
  case True
  then show ?thesis using quantum_pos [of x] by (simp add: round64_def)
next
  case False
  let ?q = "quantum x"
  have q: "0 < ?q" by (rule quantum_pos)
  have "(of_int (roundHalfEven (x / ?q)) - x / ?q) * ?q = round64 x - x"
    using False q by (simp add: round64_def left_diff_distrib)
  then have "\<bar>round64 x - x\<bar> = \<bar>of_int (roundHalfEven (x / ?q)) - x / ?q\<bar> * \<bar>?q\<bar>"
    by (simp only: abs_mult [symmetric])
  also have "\<dots> = \<bar>of_int (roundHalfEven (x / ?q)) - x / ?q\<bar> * ?q"
    using q by simp
  also have "\<dots> \<le> (1 / 2) * ?q"
    using roundHalfEven_error [of "x / ?q"] q by (intro mult_right_mono) auto
  finally show ?thesis by simp
qed

lemma exponent_less:
  assumes "x \<noteq> 0" and "\<bar>x\<bar> < 2 powi n"
  shows "exponent x < n"
proof (rule ccontr)
  assume "\<not> exponent x < n"
  then have "(2::rat) powi n \<le> 2 powi exponent x"
    by (intro power_int_increasing) auto
  with exponent_le [OF assms(1)] assms(2) show False by simp
qed

lemma round64_of_int:
  assumes "\<bar>n\<bar> < 2 ^ 53"
  shows "round64 (of_int n) = of_int n"
proof (cases "n = 0")
  case True
  then show ?thesis by (simp add: round64_def)
next
  case False
  let ?x = "of_int n :: rat"
  have "\<bar>?x\<bar> < 2 powi 53"
  proof -
    have "\<bar>?x\<bar> = of_int \<bar>n\<bar>" by simp
    also have "\<dots> < of_int (2 ^ 53)" using assms by (simp only: of_int_less_iff)
    finally show ?thesis by simp
  qed
  with False have "exponent ?x < 53" by (intro exponent_less) auto
  then have j: "max (exponent ?x) (- 1022) - 52 \<le> 0" by simp
  define k where "k = nat (- (max (exponent ?x) (- 1022) - 52))"
  have q: "quantum ?x = 1 / 2 ^ k"
    using j by (simp add: quantum_def k_def power_int_def field_simps)
  have "?x / quantum ?x = of_int (n * 2 ^ k)"
    by (simp add: q)
  then have "roundHalfEven (?x / quantum ?x) = n * 2 ^ k"
    by (simp only: roundHalfEven_of_int)
  with False show ?thesis
    by (simp add: round64_def q)
qed

lemma toDouble_small:
  assumes "\<bar>round64 x\<bar> \<le> 2 ^ 64"
  shows "toDouble x = Finite (round64 x)"
proof -
  have "(2::rat) ^ 64 < 2 ^ 1024" by (rule power_strict_increasing) auto
  with assms have "round64 x < 2 ^ 1024" "- (2 ^ 1024) < round64 x" by linarith+
  then show ?thesis by (simp add: toDouble_def Let_def)
qed

lemma toDouble_of_int:
  assumes "\<bar>n\<bar> < 2 ^ 53"
  shows "toDouble (of_int n) = Finite (of_int n)"
proof -
  have r: "round64 (of_int n) = of_int n" using assms by (rule round64_of_int)
  have "\<bar>of_int n :: rat\<bar> = of_int \<bar>n\<bar>" by simp
  also have "\<dots> \<le> of_int (2 ^ 64)" using assms by (simp only: of_int_le_iff) simp
  finally have "\<bar>round64 (of_int n)\<bar> \<le> 2 ^ 64" using r by simp
  from toDouble_small [OF this] r show ?thesis by simp
qed

lemma ceiling_round64_hundredth:
  assumes "0 \<le> N" and "N < 2 ^ 53"
  shows "toDouble (of_int N / 100) = Finite (round64 (of_int N / 100))
         \<and> \<lceil>round64 (of_int N / 100)\<rceil> = \<lceil>of_int N / (100::rat)\<rceil>"
proof (cases "100 dvd N")
  case True
  then obtain M where M: "N = 100 * M" by (auto simp: dvd_def)
  with assms have "\<bar>M\<bar> < 2 ^ 53" by simp
  from round64_of_int [OF this] toDouble_of_int [OF this] M show ?thesis by simp
next
  case False
  let ?x = "of_int N / 100 :: rat"
  let ?c = "\<lceil>?x\<rceil>"
  from False assms have pos: "0 < N" by (cases "N = 0") auto
  then have x0: "?x \<noteq> 0" by simp
  have "\<bar>?x\<bar> < 2 powi 47"
  proof -
    have "of_int N < (of_int (2 ^ 53) :: rat)" using assms by (simp only: of_int_less_iff)
    then have "?x < 2 ^ 53 / 100" by simp
    also have "\<dots> < 2 ^ 47" by simp
    finally show ?thesis using pos by simp
  qed
  with x0 have "exponent ?x < 47" by (rule exponent_less)
  then have "max (exponent ?x) (- 1022) - 52 \<le> - 6" by simp
  then have "quantum ?x \<le> 2 powi (- 6)"
    unfolding quantum_def by (intro power_int_increasing) auto
  then have q: "quantum ?x \<le> 1 / 64" by (simp add: power_int_minus)
  with round64_error [of ?x] have err: "\<bar>round64 ?x - ?x\<bar> \<le> 1 / 128" by simp
  have nonint: "?x \<noteq> of_int k" for k
  proof
    assume "?x = of_int k"
    then have "(of_int N :: rat) = of_int (100 * k)" by simp
    then have "N = 100 * k" by (simp only: of_int_eq_iff)
    with False show False by simp
  qed
  have above: "of_int ?c - 1 < ?x" and le: "?x \<le> of_int ?c" by linarith+
  from le nonint [of ?c] have below: "?x < of_int ?c" unfolding less_le by blast
  note strict = above below
  from strict(1) have "(of_int (100 * (?c - 1)) :: rat) < of_int N" by simp
  then have "100 * (?c - 1) < N" by (simp only: of_int_less_iff)
  then have "100 * (?c - 1) + 1 \<le> N" by simp
  then have "(of_int (100 * (?c - 1) + 1) :: rat) \<le> of_int N" by (simp only: of_int_le_iff)
  then have lo: "of_int ?c - 1 + 1 / 100 \<le> ?x" by simp
  from strict(2) have "(of_int N :: rat) < of_int (100 * ?c)" by simp
  then have "N < 100 * ?c" by (simp only: of_int_less_iff)
  then have "N \<le> 100 * ?c - 1" by simp
  then have "(of_int N :: rat) \<le> of_int (100 * ?c - 1)" by (simp only: of_int_le_iff)
  then have hi: "?x \<le> of_int ?c - 1 / 100" by simp
  have near: "c - 1 < y \<and> y \<le> c"
    if "\<bar>y - x\<bar> \<le> 1 / 128" and "c - 1 + 1 / 100 \<le> x" and "x \<le> c - 1 / 100"
    for x y c :: rat
    using that unfolding abs_le_iff by linarith
  from near [OF err lo hi] have bounds: "of_int ?c - 1 < round64 ?x" "round64 ?x \<le> of_int ?c"
    by blast+
  then have ceil: "\<lceil>round64 ?x\<rceil> = ?c" by (intro ceiling_unique) auto
  have small: "?x < 140737488355328"
    using \<open>\<bar>?x\<bar> < 2 powi 47\<close> by simp
  have nonneg: "0 \<le> round64 ?x"
    using pos by (intro round64_nonneg) simp
  have bounded: "\<bar>y\<bar> \<le> 18446744073709551616"
    if "\<bar>y - x\<bar> \<le> 1 / 128" and "0 \<le> y" and "x < 140737488355328"
    for x y :: rat
    using that unfolding abs_le_iff by linarith
  from bounded [OF err nonneg small] have "\<bar>round64 ?x\<bar> \<le> 2 ^ 64"
    by simp
  from toDouble_small [OF this] ceil show ?thesis by simp
qed

lemma exponent_greater:
  assumes "x \<noteq> 0"
  shows "\<bar>x\<bar> < 2 powi (exponent x + 1)"
proof -
  obtain p q where pq: "quotient_of \<bar>x\<bar> = (p, q)"
    by (cases "quotient_of \<bar>x\<bar>")
  then have q: "0 < q" by (rule quotient_of_denom_pos)
  from pq have x: "\<bar>x\<bar> = of_int p / of_int q" by (rule quotient_of_div)
  have "0 < \<bar>x\<bar>" using assms by simp
  with x have "0 < of_int p / (of_int q :: rat)" by simp
  with q have "0 < (of_int p :: rat)" by (simp add: zero_less_divide_iff)
  then have p: "0 < p" by simp
  let ?k = "bitlen p - bitlen q"
  show ?thesis
  proof (cases "2 powi ?k \<le> \<bar>x\<bar>")
    case False
    with pq show ?thesis by (simp add: exponent_def)
  next
    case True
    have hi: "of_int p < (2::rat) ^ nat (bitlen p)"
      using bitlen_bounds [OF p] by (metis of_int_less_iff of_int_numeral of_int_power)
    have lo: "(2::rat) ^ nat (bitlen q - 1) \<le> of_int q"
      using bitlen_bounds [OF q] by (metis of_int_le_iff of_int_numeral of_int_power)
    have bp: "1 \<le> bitlen p" and bq: "1 \<le> bitlen q"
      using p q by (auto simp: bitlen_alt_def)
    have "of_int p / of_int q < (2::rat) ^ nat (bitlen p) / 2 ^ nat (bitlen q - 1)"
      using hi lo p by (intro frac_less) auto
    also have "\<dots> = 2 powi (bitlen p) / 2 powi (bitlen q - 1)"
      using bp bq by (simp add: power_int_def)
    also have "\<dots> = 2 powi (bitlen p - (bitlen q - 1))"
      by (subst power_int_diff) auto
    also have "bitlen p - (bitlen q - 1) = ?k + 1"
      by simp
    finally have "\<bar>x\<bar> < 2 powi (?k + 1)" using x by simp
    with True pq show ?thesis by (simp add: exponent_def)
  qed
qed

lemma withdrawFee_of_int:
  assumes "0 \<le> A * P" and "A * P < 2 ^ 53"
  shows "withdrawFee (of_int A) (of_int P)
           = Finite (of_int \<lceil>of_int A * of_int P / (100::rat)\<rceil>)"
proof -
  have prod: "(of_int A :: rat) * of_int P = of_int (A * P)" by simp
  have "\<bar>A * P\<bar> < 2 ^ 53" using assms by simp
  then have first: "toDouble (of_int (A * P)) = Finite (of_int (A * P))"
    by (rule toDouble_of_int)
  from ceiling_round64_hundredth [OF assms] first show ?thesis
    unfolding withdrawFee_def prod by simp
qed

subsection \<open>Transactions\<close>

lemma orDefault_Some_0: "orDefault (Some b) 0 = b"
  by (simp add: orDefault_def)


lemma release_result:
  "transaction False releaseSlot c = (False, True, Some (orDefault c 1 - 1))"
  by (simp add: transaction_def releaseSlot_def)

lemma deductAmount_result:
  "transaction False (deductAmount a) bal =
     (if a \<le> orDefault bal 0 then (False, True, Some (round64 (orDefault bal 0 - a)))
      else (False, False, bal))"
  by (simp add: transaction_def deductAmount_def)


subsection \<open>Writes to one location leave the others\<close>

lemma setWalletBalance_other [simp]:
  "tournaments (setWalletBalance d u v) = tournaments d"
  "tournamentJoins (setWalletBalance d u v) = tournamentJoins d"
  "walletHistory (setWalletBalance d u v) = walletHistory d"
  "withdrawals (setWalletBalance d u v) = withdrawals d"
  "appSettings (setWalletBalance d u v) = appSettings d"
  by (simp_all add: setWalletBalance_def split: option.splits)

lemma setJoinedCount_other [simp]:
  "users (setJoinedCount d tId v) = users d"
  "tournamentJoins (setJoinedCount d tId v) = tournamentJoins d"
  "walletHistory (setJoinedCount d tId v) = walletHistory d"
  "withdrawals (setJoinedCount d tId v) = withdrawals d"
  "appSettings (setJoinedCount d tId v) = appSettings d"
  by (simp_all add: setJoinedCount_def split: option.splits)

lemma walletBalance_setJoinedCount [simp]:
  "walletBalance (setJoinedCount d tId v) u = walletBalance d u"
  by (simp add: walletBalance_def)

lemma walletBalance_other_update [simp]:
  "walletBalance (d\<lparr>tournaments := ts\<rparr>) u = walletBalance d u"
  "walletBalance (d\<lparr>tournamentJoins := j\<rparr>) u = walletBalance d u"
  "walletBalance (d\<lparr>withdrawals := w\<rparr>) u = walletBalance d u"
  by (simp_all add: walletBalance_def)

lemma joinedCountAt_setWalletBalance [simp]:
  "joinedCountAt (setWalletBalance d u v) tId = joinedCountAt d tId"
  by (simp add: joinedCountAt_def)

lemma walletBalance_setWalletBalance:
  "walletBalance (setWalletBalance d u (Some v)) u = Some v"
  by (simp add: walletBalance_def setWalletBalance_def split: option.splits)

subsection \<open>The wallet callback of joinTournament\<close>







lemma onFeeDeducted_history:
  "walletHistory (snd (onFeeDeducted now uid tId userData d1 res)) = walletHistory d1"
  by (cases res) (simp add: onFeeDeducted_def release_result)




subsection \<open>The tournament callback of joinTournament\<close>




lemma onSlotReserved_history:
  "walletHistory (snd (onSlotReserved flt now uid tId t userData d res)) = walletHistory d"
  by (cases res) (simp add: onSlotReserved_def Let_def onFeeDeducted_history)






subsection \<open>joinTournament as a whole\<close>




lemma joinTournament_history:
  "walletHistory (snd (joinTournament flt now uid tId t d)) = walletHistory d"
  by (simp add: joinTournament_def onSlotReserved_history split: option.splits)





subsection \<open>requestWithdrawal\<close>

lemma requestWithdrawal_valid:
  assumes "0 < a" and "minWithdrawSetting d \<le> a"
  shows "requestWithdrawal e now now' uid (Finite a) m acc d =
           onAmountDeducted now now' uid (if m = [] then ''upi'' else m) acc a
             (withdrawFee a (feePercentSetting d)) d
             (transaction e (deductAmount a) (walletBalance d uid))"
  using assms by (simp add: requestWithdrawal_def Let_def)

lemma onAmountDeducted_history:
  "walletHistory (snd (onAmountDeducted now now' uid mv acc a f d res)) = walletHistory d"
  by (cases res; cases f) (simp_all add: onAmountDeducted_def)

lemma requestWithdrawal_history:
  "walletHistory (snd (requestWithdrawal e now now' uid amt m acc d)) = walletHistory d"
  by (cases amt) (simp_all add: requestWithdrawal_def Let_def onAmountDeducted_history)





lemma requestWithdrawal_of_int:
  assumes "0 < A" and "0 \<le> P" and "A * P < 2 ^ 53" and "B < 2 ^ 53"
    and "feePercentSetting d = of_int P" and "minWithdrawSetting d \<le> of_int A"
    and "orDefault (walletBalance d uid) 0 = of_int B"
  shows "requestWithdrawal False now now' uid (Finite (of_int A)) m acc d =
           (if A \<le> B
            then (WithdrawRequested,
                  (setWalletBalance d uid (Some (of_int (B - A))))
                    \<lparr>withdrawals := withdrawals d @
                       [withdrawalRecord now now' uid (if m = [] then ''upi'' else m) acc (of_int A)
                          (of_int \<lceil>of_int A * of_int P / (100::rat)\<rceil>)]\<rparr>)
            else (InsufficientBalance, d))"
proof -
  have pos: "(0::rat) < of_int A" using assms(1) by simp
  have "0 \<le> A * P" using assms(1,2) by simp
  from withdrawFee_of_int [OF this assms(3)]
  have feeValue: "withdrawFee (of_int A) (feePercentSetting d)
                    = Finite (of_int \<lceil>of_int A * of_int P / (100::rat)\<rceil>)"
    by (simp add: assms(5))
  show ?thesis
  proof (cases "A \<le> B")
    case False
    then show ?thesis
      by (simp add: requestWithdrawal_valid [OF pos assms(6)] deductAmount_result assms(7)
          onAmountDeducted_def)
  next
    case True
    with assms(1,4) have "\<bar>B - A\<bar> < 2 ^ 53" by simp
    from round64_of_int [OF this]
    have exact: "round64 (of_int B - of_int A) = of_int B - of_int A" by simp
    from True show ?thesis
      by (simp add: requestWithdrawal_valid [OF pos assms(6)] deductAmount_result assms(7)
          onAmountDeducted_def feeValue exact)
  qed
qed

lemma example_withdrawal:
  "requestWithdrawal False 7 8 ''A'' (Finite 1000) m ''acct'' exampleDb =
     (WithdrawRequested,
      (setWalletBalance exampleDb ''A'' (Some 500))
        \<lparr>withdrawals :=
           [withdrawalRecord 7 8 ''A'' (if m = [] then ''upi'' else m) ''acct'' 1000 20]\<rparr>)"
proof -
  have settings: "feePercentSetting exampleDb = of_int 2" "minWithdrawSetting exampleDb \<le> of_int 1000"
    and bal: "orDefault (walletBalance exampleDb ''A'') 0 = of_int 1500"
    and none: "withdrawals exampleDb = []"
    by (simp_all add: feePercentSetting_def minWithdrawSetting_def walletBalance_def orDefault_def
        exampleDb_def alice_def)
  have "(0::int) < 1000" "(0::int) \<le> 2" "(1000::int) * 2 < 2 ^ 53" "(1500::int) < 2 ^ 53"
    by simp_all
  from requestWithdrawal_of_int [OF this settings bal, of 7 8 m "''acct''"] none
  show ?thesis by simp
qed

section \<open>The membership record\<close>

text \<open>
  Claim C1: the membership record of (tournament, user) is written exactly when the slot
  reservation (the increment of \<open>joinedCount\<close>) and the wallet debit both commit. The
  code breaks both directions. For a tournament id without a stored record the first
  transaction commits with nothing to increment, and the record is written all the same:
  in the example there is no counter for \<open>ghost\<close> before or after the run, and the
  record of (\<open>ghost\<close>, \<open>A\<close>) exists. For a profile without a name both transactions
  commit, the counter going from 1 to 2 and the balance from 1500 to 1400, then the write
  of the record throws and no record exists.
\<close>

theorem membership_without_reservation:
  "joinedCountAt exampleDb ''ghost'' = None
   \<and> fst (joinTournament noFaults 7 ''A'' ''ghost'' cup exampleDb) = JoinedSuccessfully
   \<and> joinedCountAt (snd (joinTournament noFaults 7 ''A'' ''ghost'' cup exampleDb)) ''ghost'' = None
   \<and> tournamentJoins (snd (joinTournament noFaults 7 ''A'' ''ghost'' cup exampleDb)) (''ghost'', ''A'')
       = Some (joinRecord 7 ''A'' alice)
   \<and> joinedCountAt namelessDb ''T'' = Some 1
   \<and> walletBalance namelessDb ''N'' = Some 1500
   \<and> fst (joinTournament noFaults 7 ''N'' ''T'' cup namelessDb) = WriteThrew
   \<and> joinedCountAt (snd (joinTournament noFaults 7 ''N'' ''T'' cup namelessDb)) ''T'' = Some 2
   \<and> walletBalance (snd (joinTournament noFaults 7 ''N'' ''T'' cup namelessDb)) ''N'' = Some 1400
   \<and> tournamentJoins (snd (joinTournament noFaults 7 ''N'' ''T'' cup namelessDb)) (''T'', ''N'')
       = None"
  by (simp add: eval_defs)

section \<open>The slot counter stays within the capacity\<close>



section \<open>The balance never goes below zero\<close>



section \<open>A failed attempt changes neither the counter nor the balance\<close>



section \<open>The wallet history\<close>

text \<open>
  Claim C5 says that every successful debit appends one wallet-history entry. It does
  not: in the example the join debit (1500 to 1400) and the withdrawal debit (1500 to
  500) both succeed and the history of the user is still empty.
\<close>

theorem debit_history_counterexample:
  "fst (joinTournament noFaults 7 ''A'' ''T'' cup exampleDb) = JoinedSuccessfully
   \<and> walletBalance exampleDb ''A'' = Some 1500
   \<and> walletBalance (snd (joinTournament noFaults 7 ''A'' ''T'' cup exampleDb)) ''A'' = Some 1400
   \<and> walletHistory (snd (joinTournament noFaults 7 ''A'' ''T'' cup exampleDb)) ''A'' = []
   \<and> fst (requestWithdrawal False 7 8 ''A'' (Finite 1000) ''upi'' ''acct'' exampleDb)
       = WithdrawRequested
   \<and> walletBalance (snd (requestWithdrawal False 7 8 ''A'' (Finite 1000) ''upi'' ''acct'' exampleDb)) ''A''
       = Some 500
   \<and> walletHistory (snd (requestWithdrawal False 7 8 ''A'' (Finite 1000) ''upi'' ''acct'' exampleDb)) ''A''
       = []"
proof -
  have "fst (joinTournament noFaults 7 ''A'' ''T'' cup exampleDb) = JoinedSuccessfully
   \<and> walletBalance exampleDb ''A'' = Some 1500
   \<and> walletBalance (snd (joinTournament noFaults 7 ''A'' ''T'' cup exampleDb)) ''A'' = Some 1400
   \<and> walletHistory (snd (joinTournament noFaults 7 ''A'' ''T'' cup exampleDb)) ''A'' = []"
    by (simp add: eval_defs)
  moreover
  have "walletHistory exampleDb ''A'' = []" by (simp add: exampleDb_def)
  then have "fst (requestWithdrawal False 7 8 ''A'' (Finite 1000) ''upi'' ''acct'' exampleDb)
       = WithdrawRequested
   \<and> walletBalance (snd (requestWithdrawal False 7 8 ''A'' (Finite 1000) ''upi'' ''acct'' exampleDb)) ''A''
       = Some 500
   \<and> walletHistory (snd (requestWithdrawal False 7 8 ''A'' (Finite 1000) ''upi'' ''acct'' exampleDb)) ''A''
       = []"
    by (simp add: example_withdrawal walletBalance_setWalletBalance)
  ultimately show ?thesis by simp
qed

text \<open>
  Claim C5, amended. Neither \<^verbatim>\<open>joinTournament\<close> nor \<^verbatim>\<open>requestWithdrawal\<close> writes
  under \<^verbatim>\<open>walletHistory\<close>: whatever the outcome, the wallet history of every user is
  after the run what it was before, so a successful debit appends no history entry.
\<close>

theorem debits_leave_wallet_history:
  "walletHistory (snd (joinTournament flt now uid tId t d)) = walletHistory d
   \<and> walletHistory (snd (requestWithdrawal e now now' uid amt m acc d)) = walletHistory d"
  by (simp add: joinTournament_history requestWithdrawal_history)

theorem debits_leave_wallet_history_witness:
  "walletHistory (snd (joinTournament noFaults 7 ''A'' ''T'' cup exampleDb)) = (\<lambda>_. [])
   \<and> walletHistory (snd (requestWithdrawal False 7 8 ''A'' (Finite 1000) ''upi'' ''acct'' exampleDb))
       = (\<lambda>_. [])"
proof -
  have "walletHistory exampleDb = (\<lambda>_. [])"
    by (simp add: exampleDb_def)
  with debits_leave_wallet_history [of noFaults 7 "''A''" "''T''" cup exampleDb
      False 8 "Finite 1000" "''upi''" "''acct''"]
  show ?thesis by simp
qed

section \<open>A second join of the same user\<close>




section \<open>A tournament that is not stored\<close>

text \<open>
  Claim C7: for a tournament id without a stored record the join fails, the wallet is
  not debited and no membership record is created. The code does otherwise. The update
  function of the first transaction returns the missing record as it is
  (\<^verbatim>\<open>null\<close>), which the store commits; the callback then goes on to the debit. In
  the example there is no tournament \<open>ghost\<close>, and the run ends with the success toast,
  the balance debited from 1500 to 1400 and a membership record for \<open>ghost\<close>, the
  tournament still missing.
\<close>

theorem missing_tournament_is_joined:
  "tournaments exampleDb ''ghost'' = None
   \<and> walletBalance exampleDb ''A'' = Some 1500
   \<and> fst (joinTournament noFaults 7 ''A'' ''ghost'' cup exampleDb) = JoinedSuccessfully
   \<and> walletBalance (snd (joinTournament noFaults 7 ''A'' ''ghost'' cup exampleDb)) ''A'' = Some 1400
   \<and> tournamentJoins (snd (joinTournament noFaults 7 ''A'' ''ghost'' cup exampleDb)) (''ghost'', ''A'')
       = Some (joinRecord 7 ''A'' alice)
   \<and> tournaments (snd (joinTournament noFaults 7 ''A'' ''ghost'' cup exampleDb)) ''ghost'' = None"
  by (simp add: eval_defs)

section \<open>The compensating release\<close>




section \<open>The withdrawal fee\<close>

text \<open>
  Claim C9 says that the fee is the ceiling of \<open>amount * feePercent / 100\<close> in exact
  arithmetic. It is not always: the product and the quotient are rounded to binary64
  before \<^verbatim>\<open>Math.ceil\<close>. In \<open>richDb\<close> (fee 3 percent) a withdrawal of 7000000000000067
  is recorded with fee 210000000000002, and the exact ceiling is 210000000000003: the
  product 21000000000000201 is not a binary64 value and is rounded to 21000000000000200.
\<close>

theorem withdrawal_fee_counterexample:
  "feePercentSetting richDb = 3
   \<and> fst (requestWithdrawal False 7 8 ''R'' (Finite 7000000000000067) [] ''acct'' richDb)
       = WithdrawRequested
   \<and> withdrawals (snd (requestWithdrawal False 7 8 ''R'' (Finite 7000000000000067) [] ''acct'' richDb))
       = [withdrawalRecord 7 8 ''R'' ''upi'' ''acct'' 7000000000000067 210000000000002]
   \<and> \<lceil>7000000000000067 * 3 / (100::rat)\<rceil> = 210000000000003"
proof -
  have percent: "feePercentSetting richDb = 3" and minimum: "minWithdrawSetting richDb = 500"
    and bal: "walletBalance richDb ''R'' = Some 8000000000000000"
    and none: "withdrawals richDb = []"
    by (simp_all add: feePercentSetting_def minWithdrawSetting_def walletBalance_def orDefault_def
        richDb_def alice_def)
  have rounded: "round64 21000000000000201 = 21000000000000200"
    by code_simp
  have product: "toDouble 21000000000000201 = Finite 21000000000000200"
    using toDouble_small [of 21000000000000201] by (simp add: rounded)
  have quotient: "toDouble 210000000000002 = Finite 210000000000002"
    using toDouble_of_int [of 210000000000002] by simp
  have feeValue: "withdrawFee 7000000000000067 3 = Finite 210000000000002"
    by (simp add: withdrawFee_def product quotient)
  have rest: "round64 999999999999933 = 999999999999933"
    using round64_of_int [of 999999999999933] by simp
  have "requestWithdrawal False 7 8 ''R'' (Finite 7000000000000067) [] ''acct'' richDb =
          (WithdrawRequested,
           (setWalletBalance richDb ''R'' (Some 999999999999933))
             \<lparr>withdrawals :=
                [withdrawalRecord 7 8 ''R'' ''upi'' ''acct'' 7000000000000067 210000000000002]\<rparr>)"
    by (simp add: requestWithdrawal_valid minimum percent bal none deductAmount_result
        orDefault_Some_0 onAmountDeducted_def feeValue rest)
  moreover have "\<lceil>7000000000000067 * 3 / (100::rat)\<rceil> = 210000000000003"
    by (rule ceiling_unique) simp_all
  ultimately show ?thesis using percent by simp
qed

text \<open>
  Claim C9, amended. The fee is \<^verbatim>\<open>Math.ceil\<close> of the binary64 value of
  \<open>amount * feePercent / 100\<close>. It is the exact ceiling whenever the amount and the
  percentage are integers, the amount positive and the percentage not negative, with a
  product below \<open>2^53\<close>; so amount 1000 at 2 percent gives 20. For such an amount that
  is at least the minimum, with an integer balance below \<open>2^53\<close> and no store error:
  when the balance covers the amount, exactly the amount (not the amount plus the fee) is
  debited and one withdrawal record is appended, with that fee and status
  \<^verbatim>\<open>pending\<close>; otherwise nothing changes.
\<close>

theorem withdrawal_fee_is_binary64_ceiling:
  assumes "0 < A" and "0 \<le> P" and "A * P < 2 ^ 53" and "B < 2 ^ 53"
    and "feePercentSetting d = of_int P" and "minWithdrawSetting d \<le> of_int A"
    and "orDefault (walletBalance d uid) 0 = of_int B"
  shows "withdrawFee (of_int A) (of_int P) = Finite (of_int \<lceil>of_int A * of_int P / (100::rat)\<rceil>)
       \<and> requestWithdrawal False now now' uid (Finite (of_int A)) m acc d =
           (if A \<le> B
            then (WithdrawRequested,
                  (setWalletBalance d uid (Some (of_int (B - A))))
                    \<lparr>withdrawals := withdrawals d @
                       [withdrawalRecord now now' uid (if m = [] then ''upi'' else m) acc (of_int A)
                          (of_int \<lceil>of_int A * of_int P / (100::rat)\<rceil>)]\<rparr>)
            else (InsufficientBalance, d))
       \<and> fee (withdrawalRecord now now' uid (if m = [] then ''upi'' else m) acc (of_int A)
                (of_int \<lceil>of_int A * of_int P / (100::rat)\<rceil>))
           = of_int \<lceil>of_int A * of_int P / (100::rat)\<rceil>
       \<and> amount (withdrawalRecord now now' uid (if m = [] then ''upi'' else m) acc (of_int A)
                (of_int \<lceil>of_int A * of_int P / (100::rat)\<rceil>)) = of_int A
       \<and> wStatus (withdrawalRecord now now' uid (if m = [] then ''upi'' else m) acc (of_int A)
                (of_int \<lceil>of_int A * of_int P / (100::rat)\<rceil>)) = ''pending''
       \<and> withdrawFee 1000 2 = Finite 20"
proof -
  have "0 \<le> A * P" using assms(1,2) by simp
  from withdrawFee_of_int [OF this assms(3)]
  have general: "withdrawFee (of_int A) (of_int P)
                   = Finite (of_int \<lceil>of_int A * of_int P / (100::rat)\<rceil>)" .
  have "withdrawFee (of_int 1000) (of_int 2)
          = Finite (of_int \<lceil>of_int 1000 * of_int 2 / (100::rat)\<rceil>)"
    by (rule withdrawFee_of_int) simp_all
  then have scenario: "withdrawFee 1000 2 = Finite 20" by simp
  from general scenario requestWithdrawal_of_int [OF assms, of now now' m acc]
  show ?thesis by (simp add: withdrawalRecord_def)
qed

theorem withdrawal_fee_is_binary64_ceiling_witness:
  "feePercentSetting exampleDb = 2 \<and> minWithdrawSetting exampleDb \<le> 1000
   \<and> withdrawFee 1000 2 = Finite 20
   \<and> fst (requestWithdrawal False 7 8 ''A'' (Finite 1000) [] ''acct'' exampleDb) = WithdrawRequested
   \<and> walletBalance (snd (requestWithdrawal False 7 8 ''A'' (Finite 1000) [] ''acct'' exampleDb)) ''A''
       = Some 500
   \<and> withdrawals (snd (requestWithdrawal False 7 8 ''A'' (Finite 1000) [] ''acct'' exampleDb))
       = [withdrawalRecord 7 8 ''A'' ''upi'' ''acct'' 1000 20]"
proof -
  have percent: "feePercentSetting exampleDb = of_int 2"
    and minimum: "minWithdrawSetting exampleDb \<le> of_int 1000"
    and bal: "orDefault (walletBalance exampleDb ''A'') 0 = of_int 1500"
    and none: "withdrawals exampleDb = []"
    by (simp_all add: feePercentSetting_def minWithdrawSetting_def walletBalance_def orDefault_def
        exampleDb_def alice_def)
  have "(0::int) < 1000" "(0::int) \<le> 2" "(1000::int) * 2 < 2 ^ 53" "(1500::int) < 2 ^ 53"
    by simp_all
  from withdrawal_fee_is_binary64_ceiling [OF this percent minimum bal, of 7 8 "[]" "''acct''"]
    percent minimum none
  show ?thesis by (simp add: walletBalance_setWalletBalance)
qed

section \<open>The amount guard\<close>

text \<open>
  Claim C10. An amount that parses to \<^verbatim>\<open>NaN\<close>, to zero or to a negative number
  (minus infinity included) is rejected with the database untouched, whatever the
  settings and whether or not the store fails: nothing is read or written after the
  guard. Every positive amount passes the guard, integer or not; a positive amount that
  is at least the minimum and covered by the balance, with a finite fee and no store
  error, is accepted as it is and recorded, so a fractional amount is withdrawn.
\<close>

theorem invalid_amount_rejected_first:
  "(amt = NaN \<or> amt = NegInfinity \<or> (\<exists>a. amt = Finite a \<and> a \<le> 0) \<longrightarrow>
      requestWithdrawal e now now' uid amt m acc d = (EnterValidAmount, d))
   \<and> (\<forall>a. 0 < a \<longrightarrow> fst (requestWithdrawal e now now' uid (Finite a) m acc d) \<noteq> EnterValidAmount)
   \<and> (\<forall>a f. 0 < a \<and> minWithdrawSetting d \<le> a \<and> a \<le> orDefault (walletBalance d uid) 0
           \<and> withdrawFee a (feePercentSetting d) = Finite f \<longrightarrow>
          fst (requestWithdrawal False now now' uid (Finite a) m acc d) = WithdrawRequested
          \<and> withdrawals (snd (requestWithdrawal False now now' uid (Finite a) m acc d))
              = withdrawals d @
                  [withdrawalRecord now now' uid (if m = [] then ''upi'' else m) acc a f])"
proof (intro conjI allI impI)
  assume "amt = NaN \<or> amt = NegInfinity \<or> (\<exists>a. amt = Finite a \<and> a \<le> 0)"
  then show "requestWithdrawal e now now' uid amt m acc d = (EnterValidAmount, d)"
    by (auto simp: requestWithdrawal_def)
next
  fix a :: rat assume "0 < a"
  obtain err c bal' where "transaction e (deductAmount a) (walletBalance d uid) = (err, c, bal')"
    by (metis prod_cases3)
  with \<open>0 < a\<close> show "fst (requestWithdrawal e now now' uid (Finite a) m acc d) \<noteq> EnterValidAmount"
    by (cases "withdrawFee a (feePercentSetting d)")
      (simp_all add: requestWithdrawal_def Let_def onAmountDeducted_def)
next
  fix a f :: rat
  assume h: "0 < a \<and> minWithdrawSetting d \<le> a \<and> a \<le> orDefault (walletBalance d uid) 0
           \<and> withdrawFee a (feePercentSetting d) = Finite f"
  then show "fst (requestWithdrawal False now now' uid (Finite a) m acc d) = WithdrawRequested"
    by (simp add: requestWithdrawal_valid deductAmount_result onAmountDeducted_def)
  from h show "withdrawals (snd (requestWithdrawal False now now' uid (Finite a) m acc d))
              = withdrawals d @
                  [withdrawalRecord now now' uid (if m = [] then ''upi'' else m) acc a f]"
    by (simp add: requestWithdrawal_valid deductAmount_result onAmountDeducted_def)
qed

theorem invalid_amount_rejected_first_witness:
  "requestWithdrawal True 7 8 ''A'' NaN [] [] exampleDb = (EnterValidAmount, exampleDb)
   \<and> requestWithdrawal False 7 8 ''A'' (Finite (- 5)) [] [] exampleDb = (EnterValidAmount, exampleDb)
   \<and> requestWithdrawal False 7 8 ''A'' (Finite 0) [] [] exampleDb = (EnterValidAmount, exampleDb)
   \<and> withdrawFee (1025 / 2) (feePercentSetting exampleDb) = Finite 11
   \<and> fst (requestWithdrawal False 7 8 ''A'' (Finite (1025 / 2)) [] [] exampleDb) = WithdrawRequested
   \<and> withdrawals (snd (requestWithdrawal False 7 8 ''A'' (Finite (1025 / 2)) [] [] exampleDb))
       = [withdrawalRecord 7 8 ''A'' ''upi'' [] (1025 / 2) 11]"
proof -
  have percent: "feePercentSetting exampleDb = 2"
    and minimum: "minWithdrawSetting exampleDb \<le> 1025 / 2"
    and bal: "orDefault (walletBalance exampleDb ''A'') 0 = 1500"
    and none: "withdrawals exampleDb = []"
    by (simp_all add: feePercentSetting_def minWithdrawSetting_def walletBalance_def orDefault_def
        exampleDb_def alice_def)
  have product: "toDouble 1025 = Finite 1025"
    using toDouble_of_int [of 1025] by simp
  have rounded: "round64 (41 / 4) = 41 / 4"
    by code_simp
  have quotient: "toDouble (41 / 4) = Finite (41 / 4)"
    using toDouble_small [of "41 / 4"] by (simp add: rounded)
  have up: "\<lceil>41 / (4::rat)\<rceil> = 11"
    by (rule ceiling_unique) simp_all
  have feeValue: "withdrawFee (1025 / 2) (feePercentSetting exampleDb) = Finite 11"
    by (simp add: withdrawFee_def percent product quotient up)
  from invalid_amount_rejected_first [of NaN True 7 8 "''A''" "[]" "[]" exampleDb]
  have nan: "requestWithdrawal True 7 8 ''A'' NaN [] [] exampleDb = (EnterValidAmount, exampleDb)"
    by simp
  from invalid_amount_rejected_first [of "Finite (- 5)" False 7 8 "''A''" "[]" "[]" exampleDb]
  have neg: "requestWithdrawal False 7 8 ''A'' (Finite (- 5)) [] [] exampleDb
               = (EnterValidAmount, exampleDb)"
    by simp
  from invalid_amount_rejected_first [of "Finite 0" False 7 8 "''A''" "[]" "[]" exampleDb]
  have zero: "requestWithdrawal False 7 8 ''A'' (Finite 0) [] [] exampleDb
               = (EnterValidAmount, exampleDb)"
    by simp
  from invalid_amount_rejected_first [of NaN False 7 8 "''A''" "[]" "[]" exampleDb]
    minimum bal feeValue none
  have frac: "fst (requestWithdrawal False 7 8 ''A'' (Finite (1025 / 2)) [] [] exampleDb)
                = WithdrawRequested
   \<and> withdrawals (snd (requestWithdrawal False 7 8 ''A'' (Finite (1025 / 2)) [] [] exampleDb))
       = [withdrawalRecord 7 8 ''A'' ''upi'' [] (1025 / 2) 11]"
    by simp
  from nan neg zero frac feeValue show ?thesis by simp
qed

end
